theory Spec2Isabelle
  imports
    Complex_Main
    "HOL-Library.Sublist"
    "HOL-Library.Char_ord"
    "HOL-Library.List_Lexorder"
    "HOL-Library.Product_Lexorder"
begin

section \<open>Errors, identifiers and timestamps\<close>

text \<open>
  The handlers of \<^verbatim>\<open>main.py\<close> either return a JSON value or raise. A raise is a value
  of \<open>error\<close>: \<open>HTTPException\<close> carries the status code and the detail the handler gives;
  every other constructor is an exception that no handler catches, which the framework
  answers with status 500. \<open>RequestValidationError\<close> is the framework's rejection (422) of a
  query parameter that violates its \<^verbatim>\<open>Query(..., ge=, le=)\<close> constraint.
  \<open>Unmodelled\<close> marks a request whose outcome depends on behaviour of the document store,
  or of code outside the sources, that is not written out here; no theorem speaks about
  such a request.
\<close>

datatype error =
    HTTPException nat string
  | InvalidId
  | TypeError
  | ValidationError
  | RequestValidationError
  | OperationFailure
  | Unmodelled

fun status_code :: "error \<Rightarrow> nat" where
  "status_code (HTTPException c d) = c"
| "status_code RequestValidationError = 422"
| "status_code e = 500"

text \<open>
  Strings are lists of 8-bit characters and are taken to be ASCII; case folding is the
  map of the 26 letters.
\<close>

definition lower_char :: "char \<Rightarrow> char" where
  "lower_char c =
     (case map_of (zip ''ABCDEFGHIJKLMNOPQRSTUVWXYZ'' ''abcdefghijklmnopqrstuvwxyz'') c of
        Some d \<Rightarrow> d
      | None \<Rightarrow> c)"

definition lower :: "string \<Rightarrow> string" where
  "lower s = map lower_char s"

definition is_hex :: "char \<Rightarrow> bool" where
  "is_hex c = (c \<in> set ''0123456789abcdefABCDEF'')"

text \<open>
  \<^verbatim>\<open>bson.ObjectId\<close>: twelve bytes, written as 24 hexadecimal digits. \<open>Oid\<close> holds the
  lower-case digits, which is what \<^verbatim>\<open>str(oid)\<close> prints. \<open>ObjectId s\<close> is the constructor
  applied to a string: it raises \<^verbatim>\<open>InvalidId\<close> unless \<open>s\<close> is 24 hexadecimal digits.
\<close>

datatype oid = Oid string

fun str_oid :: "oid \<Rightarrow> string" where
  "str_oid (Oid s) = s"

definition ObjectId :: "string \<Rightarrow> error + oid" where
  "ObjectId s =
     (if length s = 24 \<and> list_all is_hex s then Inr (Oid (lower s)) else Inl InvalidId)"

text \<open>The identifier the driver gives the \<open>n\<close>-th inserted document.\<close>

definition hex_digit :: "nat \<Rightarrow> char" where
  "hex_digit n = ''0123456789abcdef'' ! (n mod 16)"

fun hex_of :: "nat \<Rightarrow> nat \<Rightarrow> string" where
  "hex_of 0 n = []"
| "hex_of (Suc k) n = hex_of k (n div 16) @ [hex_digit n]"

definition new_oid :: "nat \<Rightarrow> oid" where
  "new_oid n = Oid (hex_of 24 n)"

text \<open>
  \<^verbatim>\<open>datetime\<close> (naive, as \<^verbatim>\<open>datetime.utcnow()\<close> returns it and as the driver reads
  it back) and \<^verbatim>\<open>datetime.isoformat()\<close>: \<^verbatim>\<open>YYYY-MM-DDTHH:MM:SS\<close>, followed by
  \<^verbatim>\<open>.ffffff\<close> when the microsecond is not zero.
\<close>

datatype datetime =
  Datetime (year: nat) (month: nat) (day: nat) (hour: nat) (minute: nat) (second: nat)
    (microsecond: nat)

definition digit_char :: "nat \<Rightarrow> char" where
  "digit_char n = ''0123456789'' ! (n mod 10)"

fun zpad :: "nat \<Rightarrow> nat \<Rightarrow> string" where
  "zpad 0 n = []"
| "zpad (Suc k) n = zpad k (n div 10) @ [digit_char n]"

definition isoformat :: "datetime \<Rightarrow> string" where
  "isoformat t =
     zpad 4 (year t) @ ''-'' @ zpad 2 (month t) @ ''-'' @ zpad 2 (day t) @ ''T'' @
     zpad 2 (hour t) @ '':'' @ zpad 2 (minute t) @ '':'' @ zpad 2 (second t) @
     (if microsecond t = 0 then [] else ''.'' @ zpad 6 (microsecond t))"

text \<open>\<^verbatim>\<open>str(i)\<close> for a non-negative integer.\<close>

fun str_nat :: "nat \<Rightarrow> string" where
  "str_nat n = (if n < 10 then [digit_char n] else str_nat (n div 10) @ [digit_char n])"

declare str_nat.simps [simp del]


section \<open>Documents and the store\<close>

text \<open>
  \<^verbatim>\<open>schemas.py\<close> gives the shape of what the handlers insert: the records \<open>User\<close>,
  \<open>Category\<close>, \<open>Product\<close> and \<open>CartItem\<close> below. A stored document extends the schema
  record with the store's \<^verbatim>\<open>_id\<close> and, where a handler writes them, timestamps.
  The document records are polymorphic in the identifier and the timestamp: in the store
  they are \<open>oid\<close> and \<open>datetime\<close>, and after \<^verbatim>\<open>serialize_doc\<close> both are strings (the
  identifier then sits under the key \<^verbatim>\<open>id\<close>). An optional field that is \<open>None\<close> is
  null or absent.
\<close>

record User =
  name :: string
  email :: string
  password_hash :: string
  address :: "string option"
  is_active :: bool
  role :: string

record user_doc = User +
  u_id :: oid

record Category =
  c_name :: string
  slug :: string
  icon :: "string option"
  c_description :: "string option"

record category_doc = Category +
  c_id :: oid

record Product =
  title :: string
  description :: "string option"
  price :: real
  category :: string
  images :: "string list"
  rating :: real
  rating_count :: int
  in_stock :: bool
  features :: "string list"

record ('i, 't) product_doc = Product +
  p_id :: 'i
  created_at :: "'t option"
  updated_at :: "'t option"

record CartItem =
  client_id :: string
  product_id :: string
  qty :: int

record ('i, 't) cartitem_doc = CartItem +
  ci_id :: 'i
  ci_updated_at :: "'t option"

record ('i, 't) cart_row = "('i, 't) cartitem_doc" +
  product :: "('i, 't) product_doc option"

text \<open>
  The database: one list of documents per collection, in insertion order, and the count of
  identifiers handed out so far. The global \<^verbatim>\<open>db\<close> of the source is a
  \<open>store option\<close>: \<open>None\<close> when no database is configured.
\<close>

record store =
  user_coll :: "user_doc list"
  category_coll :: "category_doc list"
  product_coll :: "(oid, datetime) product_doc list"
  cartitem_coll :: "(oid, datetime) cartitem_doc list"
  next_oid :: nat

text \<open>\<^verbatim>\<open>find_one\<close>: the first document that matches, or \<open>None\<close>.\<close>

definition find_one :: "('a \<Rightarrow> bool) \<Rightarrow> 'a list \<Rightarrow> 'a option" where
  "find_one p xs = List.find p xs"

text \<open>
  \<^verbatim>\<open>update_one\<close>: applies the update to the first document that matches and returns
  \<^verbatim>\<open>matched_count\<close> with the collection.
\<close>

fun update_one :: "('a \<Rightarrow> bool) \<Rightarrow> ('a \<Rightarrow> 'a) \<Rightarrow> 'a list \<Rightarrow> nat \<times> 'a list" where
  "update_one p f [] = (0, [])"
| "update_one p f (x # xs) =
     (if p x then (1, f x # xs)
      else (case update_one p f xs of (m, ys) \<Rightarrow> (m, x # ys)))"

text \<open>
  \<^verbatim>\<open>serialize_doc\<close>: \<^verbatim>\<open>_id\<close> becomes the string \<^verbatim>\<open>id\<close>, every datetime becomes its
  \<^verbatim>\<open>isoformat()\<close>, every other field is kept.
\<close>

definition serialize_product :: "(oid, datetime) product_doc \<Rightarrow> (string, string) product_doc" where
  "serialize_product d =
     \<lparr>title = title d, description = description d, price = price d, category = category d,
      images = images d, rating = rating d, rating_count = rating_count d,
      in_stock = in_stock d, features = features d,
      p_id = str_oid (p_id d),
      created_at = map_option isoformat (created_at d),
      updated_at = map_option isoformat (updated_at d)\<rparr>"


section \<open>Cart handlers\<close>

record ok_out =
  ok :: bool

text \<open>
  \<^verbatim>\<open>update_cart(item_id, payload)\<close>. \<open>now\<close> is the value of \<^verbatim>\<open>datetime.utcnow()\<close>.
  Subscripting \<^verbatim>\<open>db\<close> raises \<^verbatim>\<open>TypeError\<close> when it is \<^verbatim>\<open>None\<close>;
  \<^verbatim>\<open>ObjectId(item_id)\<close> raises \<^verbatim>\<open>InvalidId\<close>; neither is caught.
\<close>

definition update_cart ::
  "datetime \<Rightarrow> store option \<Rightarrow> string \<Rightarrow> int \<Rightarrow> (error + ok_out) \<times> store option" where
  "update_cart now db item_id payload_qty =
     (case db of
        None \<Rightarrow> (Inl TypeError, db)
      | Some s \<Rightarrow>
          (case ObjectId item_id of
             Inl e \<Rightarrow> (Inl e, db)
           | Inr i \<Rightarrow>
               (case update_one (\<lambda>d. ci_id d = i)
                       (\<lambda>d. d\<lparr>qty := payload_qty, ci_updated_at := Some now\<rparr>)
                       (cartitem_coll s) of
                  (matched_count, coll) \<Rightarrow>
                    if matched_count = 0
                    then (Inl (HTTPException 404 ''Cart item not found''),
                          Some (s\<lparr>cartitem_coll := coll\<rparr>))
                    else (Inr \<lparr>ok = True\<rparr>, Some (s\<lparr>cartitem_coll := coll\<rparr>)))))"

text \<open>
  \<^verbatim>\<open>get_cart(client_id)\<close>. The loop over the client's items is \<open>attach_products\<close>: for an
  item whose \<^verbatim>\<open>product_id\<close> is not empty it evaluates \<^verbatim>\<open>ObjectId(product_id)\<close>, which
  raises \<^verbatim>\<open>InvalidId\<close> out of the handler when the string does not parse, and looks the
  product up; the row is the serialized item with the serialized product, or null.
\<close>

definition cart_row_of ::
  "(oid, datetime) cartitem_doc \<Rightarrow> (oid, datetime) product_doc option \<Rightarrow> (string, string) cart_row" where
  "cart_row_of it prd =
     \<lparr>client_id = client_id it, product_id = product_id it, qty = qty it,
      ci_id = str_oid (ci_id it),
      ci_updated_at = map_option isoformat (ci_updated_at it),
      product = map_option serialize_product prd\<rparr>"

fun attach_products ::
  "store \<Rightarrow> (oid, datetime) cartitem_doc list \<Rightarrow> error + (string, string) cart_row list" where
  "attach_products s [] = Inr []"
| "attach_products s (it # its) =
     (case (if product_id it \<noteq> []
            then (case ObjectId (product_id it) of
                    Inl e \<Rightarrow> Inl e
                  | Inr i \<Rightarrow> Inr (find_one (\<lambda>d. p_id d = i) (product_coll s)))
            else Inr None) of
        Inl e \<Rightarrow> Inl e
      | Inr prd \<Rightarrow>
          (case attach_products s its of
             Inl e \<Rightarrow> Inl e
           | Inr result \<Rightarrow> Inr (cart_row_of it prd # result)))"

definition get_cart :: "store option \<Rightarrow> string \<Rightarrow> error + (string, string) cart_row list" where
  "get_cart db cid =
     (case db of
        None \<Rightarrow> Inr []
      | Some s \<Rightarrow> attach_products s (filter (\<lambda>it. client_id it = cid) (cartitem_coll s)))"


text \<open>
  What a cart item's \<open>product_id\<close> resolves to when it is empty or parses: the first product
  with that identifier, if any.
\<close>

definition resolved ::
  "store \<Rightarrow> (oid, datetime) cartitem_doc \<Rightarrow> (oid, datetime) product_doc option" where
  "resolved s it =
     (case ObjectId (product_id it) of
        Inl e \<Rightarrow> None
      | Inr i \<Rightarrow> find_one (\<lambda>d. p_id d = i) (product_coll s))"


section \<open>Product handlers\<close>

text \<open>\<^verbatim>\<open>get_product(product_id)\<close>.\<close>

definition get_product :: "store option \<Rightarrow> string \<Rightarrow> error + (string, string) product_doc" where
  "get_product db pid =
     (case db of
        None \<Rightarrow> Inl (HTTPException 500 ''Database not available'')
      | Some s \<Rightarrow>
          (case ObjectId pid of
             Inl e \<Rightarrow> Inl e
           | Inr i \<Rightarrow>
               (case find_one (\<lambda>d. p_id d = i) (product_coll s) of
                  None \<Rightarrow> Inl (HTTPException 404 ''Product not found'')
                | Some item \<Rightarrow> Inr (serialize_product item))))"

subsection \<open>The filter of \<^verbatim>\<open>list_products\<close>\<close>

text \<open>
  \<^verbatim>\<open>if q:\<close> on an optional string: present and not empty.
\<close>

fun truthy :: "string option \<Rightarrow> bool" where
  "truthy None = False"
| "truthy (Some s) = (s \<noteq> [])"

text \<open>
  The dictionary \<^verbatim>\<open>filt\<close>: the \<^verbatim>\<open>$or\<close> of two case-insensitive \<^verbatim>\<open>$regex\<close> clauses
  on title and description, the category, and the price range \<^verbatim>\<open>{$gte, $lte}\<close>; a key
  that the handler does not set is \<open>None\<close>.
\<close>

record filt =
  f_regex :: "string option"
  f_category :: "string option"
  f_price :: "(real option \<times> real option) option"

definition build_filter ::
  "string option \<Rightarrow> string option \<Rightarrow> real option \<Rightarrow> real option \<Rightarrow> filt" where
  "build_filter q cat min_price max_price =
     \<lparr>f_regex = (if truthy q then q else None),
      f_category = (if truthy cat then cat else None),
      f_price = (if min_price \<noteq> None \<or> max_price \<noteq> None
                 then Some (min_price, max_price) else None)\<rparr>"

text \<open>\<^verbatim>\<open>{$gte: lo, $lte: hi}\<close> with either bound possibly absent.\<close>

definition price_in :: "real option \<times> real option \<Rightarrow> real \<Rightarrow> bool" where
  "price_in pr x =
     ((case fst pr of None \<Rightarrow> True | Some lo \<Rightarrow> lo \<le> x) \<and>
      (case snd pr of None \<Rightarrow> True | Some hi \<Rightarrow> x \<le> hi))"

text \<open>
  The regular-expression engine of the store is a parameter \<open>rx\<close> of the model. For a
  pattern \<open>q\<close>, \<open>rx q\<close> is \<open>Compiled t\<close> when the store accepts \<open>q\<close>, with \<open>t\<close> the
  case-insensitive search for \<open>q\<close> in a string; \<open>Invalid\<close> when the store rejects \<open>q\<close> (the
  driver then raises \<^verbatim>\<open>OperationFailure\<close>); and \<open>Beyond\<close> when an engine written out below
  does not cover \<open>q\<close>. A null description matches no pattern.
\<close>

datatype regex = Compiled "string \<Rightarrow> bool" | Invalid | Beyond

definition matches ::
  "(string \<Rightarrow> bool) option \<Rightarrow> filt \<Rightarrow> (oid, datetime) product_doc \<Rightarrow> bool" where
  "matches t f d =
     ((case t of
         None \<Rightarrow> True
       | Some m \<Rightarrow> m (title d) \<or> (case description d of None \<Rightarrow> False | Some s \<Rightarrow> m s)) \<and>
      (case f_category f of None \<Rightarrow> True | Some c \<Rightarrow> category d = c) \<and>
      (case f_price f of None \<Rightarrow> True | Some pr \<Rightarrow> price_in pr (price d)))"

definition find_products ::
  "(string \<Rightarrow> regex) \<Rightarrow> filt \<Rightarrow> (oid, datetime) product_doc list \<Rightarrow>
   error + (oid, datetime) product_doc list" where
  "find_products rx f docs =
     (case f_regex f of
        None \<Rightarrow> Inr (filter (matches None f) docs)
      | Some q \<Rightarrow>
          (case rx q of
             Compiled m \<Rightarrow> Inr (filter (matches (Some m) f) docs)
           | Invalid \<Rightarrow> Inl OperationFailure
           | Beyond \<Rightarrow> Inl Unmodelled))"

subsection \<open>The sort of \<^verbatim>\<open>list_products\<close>\<close>

text \<open>
  The values a scalar field of a product document holds, and the store's order on them:
  by type first (null, then numbers, strings, identifiers, booleans, dates), then by value;
  strings and identifiers by their characters, dates chronologically. \<open>bson_ord\<close> maps a
  value to a key of a linear order (type rank, number, characters or date components).
\<close>

datatype bson = BNull | BNum real | BStr string | BOid oid | BBool bool | BDate datetime

fun bson_ord :: "bson \<Rightarrow> nat \<times> real \<times> nat list" where
  "bson_ord BNull = (2, 0, [])"
| "bson_ord (BNum x) = (3, x, [])"
| "bson_ord (BStr s) = (4, 0, map of_char s)"
| "bson_ord (BOid i) = (8, 0, map of_char (str_oid i))"
| "bson_ord (BBool b) = (9, 0, [if b then 1 else 0])"
| "bson_ord (BDate t) =
     (10, 0, [year t, month t, day t, hour t, minute t, second t, microsecond t])"

definition bson_le :: "bson \<Rightarrow> bson \<Rightarrow> bool" where
  "bson_le a b = (bson_ord a \<le> bson_ord b)"

text \<open>
  The value of a document under a sort key. The scalar top-level fields are written out;
  a missing or null field sorts as null. Sorting on any other key (an array field, a
  dotted path, an empty or reserved name) is not modelled.
\<close>

definition scalar_fields :: "string list" where
  "scalar_fields =
     [''_id'', ''title'', ''description'', ''price'', ''category'', ''rating'',
      ''rating_count'', ''in_stock'', ''created_at'', ''updated_at'']"

definition field_value :: "string \<Rightarrow> (oid, datetime) product_doc \<Rightarrow> bson" where
  "field_value k d =
     (if k = ''_id'' then BOid (p_id d)
      else if k = ''title'' then BStr (title d)
      else if k = ''description''
        then (case description d of None \<Rightarrow> BNull | Some s \<Rightarrow> BStr s)
      else if k = ''price'' then BNum (price d)
      else if k = ''category'' then BStr (category d)
      else if k = ''rating'' then BNum (rating d)
      else if k = ''rating_count'' then BNum (real_of_int (rating_count d))
      else if k = ''in_stock'' then BBool (in_stock d)
      else if k = ''created_at''
        then (case created_at d of None \<Rightarrow> BNull | Some t \<Rightarrow> BDate t)
      else if k = ''updated_at''
        then (case updated_at d of None \<Rightarrow> BNull | Some t \<Rightarrow> BDate t)
      else BNull)"

text \<open>
  \<^verbatim>\<open>cursor.sort(key, direction)\<close>: ascending for direction 1, descending for -1;
  documents with equal keys stay in insertion order.
\<close>

definition cursor_sort ::
  "string \<Rightarrow> int \<Rightarrow> (oid, datetime) product_doc list \<Rightarrow>
   error + (oid, datetime) product_doc list" where
  "cursor_sort key direction docs =
     (if key \<in> set scalar_fields
      then Inr (if direction = 1
                then sort_key (\<lambda>d. bson_ord (field_value key d)) docs
                else rev (sort_key (\<lambda>d. bson_ord (field_value key d)) (rev docs)))
      else Inl Unmodelled)"

definition startswith_minus :: "string \<Rightarrow> bool" where
  "startswith_minus s = (case s of [] \<Rightarrow> False | c # cs \<Rightarrow> c = CHR ''-'')"

definition apply_sort ::
  "string option \<Rightarrow> (oid, datetime) product_doc list \<Rightarrow>
   error + (oid, datetime) product_doc list" where
  "apply_sort srt docs =
     (case srt of
        None \<Rightarrow> Inr docs
      | Some s \<Rightarrow>
          if s = [] then Inr docs
          else cursor_sort (if startswith_minus s then tl s else s)
                 (if startswith_minus s then - 1 else 1) docs)"

subsection \<open>\<^verbatim>\<open>list_products\<close>\<close>

text \<open>
  The response of \<^verbatim>\<open>list_products\<close>; the fields are the keys \<^verbatim>\<open>items\<close>, \<^verbatim>\<open>total\<close>,
  \<^verbatim>\<open>page\<close> and \<^verbatim>\<open>pages\<close>. \<open>page_of\<close> is the response built from the sorted cursor:
  \<^verbatim>\<open>skip((page - 1) * limit).limit(limit)\<close>, each document serialized, the total, and
  \<^verbatim>\<open>(total + limit - 1) // limit\<close> pages.
\<close>

record products_out =
  r_items :: "(string, string) product_doc list"
  r_total :: int
  r_page :: int
  r_pages :: int

definition page_of ::
  "(oid, datetime) product_doc list \<Rightarrow> int \<Rightarrow> int \<Rightarrow> products_out" where
  "page_of cursor pg limit =
     \<lparr>r_items = map serialize_product (take (nat limit) (drop (nat ((pg - 1) * limit)) cursor)),
      r_total = int (length cursor),
      r_page = pg,
      r_pages = (int (length cursor) + limit - 1) div limit\<rparr>"

definition negative :: "real option \<Rightarrow> bool" where
  "negative x = (case x of None \<Rightarrow> False | Some v \<Rightarrow> v < 0)"

text \<open>
  \<^verbatim>\<open>list_products\<close> with every parameter given. The first test is the framework's check
  of the declared constraints (\<^verbatim>\<open>page >= 1\<close>, \<^verbatim>\<open>1 <= limit <= 60\<close>, prices \<^verbatim>\<open>>= 0\<close>),
  made before the handler runs. The total is the count of the documents that match the
  filter (\<^verbatim>\<open>cursor.count()\<close> or \<^verbatim>\<open>count_documents(filt)\<close>, whichever the driver has).
\<close>

definition list_products ::
  "(string \<Rightarrow> regex) \<Rightarrow> store option \<Rightarrow>
   string option \<Rightarrow> string option \<Rightarrow> real option \<Rightarrow> real option \<Rightarrow> string option \<Rightarrow>
   int \<Rightarrow> int \<Rightarrow> error + products_out" where
  "list_products rx db q cat min_price max_price srt pg limit =
     (if pg < 1 \<or> limit < 1 \<or> 60 < limit \<or> negative min_price \<or> negative max_price
      then Inl RequestValidationError
      else
        (case db of
           None \<Rightarrow> Inr \<lparr>r_items = [], r_total = 0, r_page = pg, r_pages = 0\<rparr>
         | Some s \<Rightarrow>
             (case find_products rx (build_filter q cat min_price max_price) (product_coll s) of
                Inl e \<Rightarrow> Inl e
              | Inr found \<Rightarrow>
                  (case apply_sort srt found of
                     Inl e \<Rightarrow> Inl e
                   | Inr cursor \<Rightarrow> Inr (page_of cursor pg limit)))))"


text \<open>The items of one page of a listing (none when the request fails).\<close>

definition page_items ::
  "(string \<Rightarrow> regex) \<Rightarrow> store option \<Rightarrow>
   string option \<Rightarrow> string option \<Rightarrow> real option \<Rightarrow> real option \<Rightarrow> string option \<Rightarrow>
   int \<Rightarrow> int \<Rightarrow> (string, string) product_doc list" where
  "page_items rx db q cat min_price max_price srt limit pg =
     (case list_products rx db q cat min_price max_price srt pg limit of
        Inl e \<Rightarrow> []
      | Inr r \<Rightarrow> r_items r)"

text \<open>
  The product records in the store, and those among them that match the filter of a
  request: the count the claims call the total is taken over the latter.
\<close>

definition stored_products :: "store option \<Rightarrow> (oid, datetime) product_doc list" where
  "stored_products db = (case db of None \<Rightarrow> [] | Some s \<Rightarrow> product_coll s)"

definition matching_products ::
  "(string \<Rightarrow> regex) \<Rightarrow> store option \<Rightarrow>
   string option \<Rightarrow> string option \<Rightarrow> real option \<Rightarrow> real option \<Rightarrow>
   (oid, datetime) product_doc list" where
  "matching_products rx db q cat min_price max_price =
     filter
       (matches
          (case f_regex (build_filter q cat min_price max_price) of
             None \<Rightarrow> None
           | Some p \<Rightarrow> (case rx p of Compiled m \<Rightarrow> Some m | Invalid \<Rightarrow> None | Beyond \<Rightarrow> None))
          (build_filter q cat min_price max_price))
       (stored_products db)"



section \<open>Seeding\<close>

text \<open>
  \<^verbatim>\<open>insert_many\<close>: the documents are appended in order; the \<open>k\<close>-th of them gets the
  identifier \<open>new_oid (n + k)\<close>, \<open>n\<close> being the count of identifiers handed out before.
\<close>

definition category_document :: "nat \<times> Category \<Rightarrow> category_doc" where
  "category_document nc =
     \<lparr>c_name = c_name (snd nc), slug = slug (snd nc), icon = icon (snd nc),
      c_description = c_description (snd nc), c_id = new_oid (fst nc)\<rparr>"

definition product_document :: "nat \<times> Product \<Rightarrow> (oid, datetime) product_doc" where
  "product_document np =
     \<lparr>title = title (snd np), description = description (snd np), price = price (snd np),
      category = category (snd np), images = images (snd np), rating = rating (snd np),
      rating_count = rating_count (snd np), in_stock = in_stock (snd np),
      features = features (snd np),
      p_id = new_oid (fst np), created_at = None, updated_at = None\<rparr>"

definition insert_many_category :: "Category list \<Rightarrow> store \<Rightarrow> store" where
  "insert_many_category cs s =
     s\<lparr>category_coll :=
         category_coll s @ map category_document (zip [next_oid s ..< next_oid s + length cs] cs),
       next_oid := next_oid s + length cs\<rparr>"

definition insert_many_product :: "Product list \<Rightarrow> store \<Rightarrow> store" where
  "insert_many_product ps s =
     s\<lparr>product_coll :=
         product_coll s @ map product_document (zip [next_oid s ..< next_oid s + length ps] ps),
       next_oid := next_oid s + length ps\<rparr>"

definition seed_categories :: "Category list" where
  "seed_categories =
     [\<lparr>c_name = ''Cards'', slug = ''cards'', icon = Some ''CreditCard'',
       c_description = Some ''Payment cards and fintech''\<rparr>,
      \<lparr>c_name = ''Accessories'', slug = ''accessories'', icon = Some ''Star'',
       c_description = Some ''Premium accessories''\<rparr>,
      \<lparr>c_name = ''Software'', slug = ''software'', icon = Some ''Settings'',
       c_description = Some ''Apps and tools''\<rparr>]"

definition seed_product :: "nat \<Rightarrow> Product" where
  "seed_product i =
     \<lparr>title = ''Premium Card '' @ str_nat i,
      description = Some ''Elegant glassmorphic fintech card with premium perks.'',
      price = 49 + real i,
      category = ''cards'',
      images =
        [''https://images.unsplash.com/photo-1633265486064-086b219478d0?q=80&w=1200&auto=format&fit=crop'',
         ''https://images.unsplash.com/photo-1563013544-824ae1b704d3?q=80&w=1200&auto=format&fit=crop''],
      rating = 45 / 10,
      rating_count = 120 + int i,
      in_stock = True,
      features = [''Metal body'', ''Cashback'', ''Priority support'']\<rparr>"

definition seed_products :: "Product list" where
  "seed_products = map seed_product [1 ..< 25]"

record seed_out = ok_out +
  message :: "string option"
  inserted :: "nat option"

text \<open>\<^verbatim>\<open>seed_data()\<close>; \<^verbatim>\<open>count_documents({})\<close> is the length of the collection.\<close>

definition seed_data :: "store option \<Rightarrow> (error + seed_out) \<times> store option" where
  "seed_data db =
     (case db of
        None \<Rightarrow> (Inl (HTTPException 500 ''Database not available''), db)
      | Some s \<Rightarrow>
          if length (product_coll s) > 0
          then (Inr \<lparr>ok = True, message = Some ''Already seeded'', inserted = None\<rparr>, db)
          else (Inr \<lparr>ok = True, message = None, inserted = Some (length seed_products)\<rparr>,
                Some (insert_many_product seed_products
                        (insert_many_category seed_categories s))))"


section \<open>Registration\<close>







section \<open>A regular-expression engine for literal patterns and the wildcard\<close>

text \<open>
  The store matches \<^verbatim>\<open>$regex\<close> patterns as Perl-compatible regular expressions; with the
  option \<^verbatim>\<open>i\<close> letters match in either case. \<open>mongo_regex_i\<close> writes that engine out
  for the patterns made of ordinary characters (printable ASCII, none of the metacharacters
  \<^verbatim>\<open>\ ^ $ . [ ] | ( ) ? * + { }\<close>) and of the wildcard \<^verbatim>\<open>.\<close>, which matches any one
  character but a line feed. Every other pattern is \<open>Beyond\<close> it. \<open>match_here p s\<close>: the
  pattern matches at the start of \<open>s\<close>; \<open>regex_search p s\<close>: it matches somewhere in \<open>s\<close>.
\<close>

definition regex_meta :: "char list" where
  "regex_meta = CHR 0x5C # ''^$.[]|()?*+{}''"

definition ordinary :: "char \<Rightarrow> bool" where
  "ordinary c = (c \<notin> set regex_meta \<and> 32 \<le> (of_char c :: nat) \<and> (of_char c :: nat) < 127)"

fun match_here :: "string \<Rightarrow> string \<Rightarrow> bool" where
  "match_here [] s = True"
| "match_here (p # ps) [] = False"
| "match_here (p # ps) (c # cs) =
     ((if p = CHR ''.'' then c \<noteq> CHR 0x0A else lower_char p = lower_char c) \<and>
      match_here ps cs)"

fun regex_search :: "string \<Rightarrow> string \<Rightarrow> bool" where
  "regex_search p [] = match_here p []"
| "regex_search p (c # cs) = (match_here p (c # cs) \<or> regex_search p cs)"

definition mongo_regex_i :: "string \<Rightarrow> regex" where
  "mongo_regex_i q =
     (if list_all (\<lambda>c. c = CHR ''.'' \<or> ordinary c) q then Compiled (regex_search q)
      else Beyond)"

text \<open>
  The words of the claims: \<open>q\<close> occurs, case-insensitively, as a substring of \<open>s\<close>.
\<close>

definition occurs_in :: "string \<Rightarrow> string \<Rightarrow> bool" where
  "occurs_in q s = sublist (lower q) (lower s)"

section \<open>Sample data\<close>

definition t0 :: datetime where
  "t0 = Datetime 2024 5 17 9 30 0 0"

definition cart_store :: store where
  "cart_store =
     \<lparr>user_coll = [], category_coll = [], product_coll = [],
      cartitem_coll =
        [\<lparr>client_id = ''c1'', product_id = ''not-an-id'', qty = 1,
          ci_id = Oid ''00000000000000000000000a'', ci_updated_at = None\<rparr>,
         \<lparr>client_id = ''c2'', product_id = ''000000000000000000000001'', qty = 4,
          ci_id = Oid ''00000000000000000000000b'', ci_updated_at = None\<rparr>],
      next_oid = 12\<rparr>"


definition abc_card :: "(oid, datetime) product_doc" where
  "abc_card =
     \<lparr>title = ''Abc Card'', description = None, price = 55, category = ''cards'',
      images = [], rating = 4, rating_count = 3, in_stock = True, features = [],
      p_id = Oid ''000000000000000000000001'',
      created_at = Some (Datetime 2024 5 17 9 30 0 0), updated_at = None\<rparr>"

definition product_store :: store where
  "product_store =
     \<lparr>user_coll = [], category_coll = [], product_coll = [abc_card],
      cartitem_coll =
        [\<lparr>client_id = ''c3'', product_id = ''000000000000000000000001'', qty = 2,
          ci_id = Oid ''00000000000000000000000c'', ci_updated_at = None\<rparr>],
      next_oid = 13\<rparr>"






definition gold :: "(oid, datetime) product_doc" where
  "gold =
     \<lparr>title = ''Gold'', description = Some ''Metal a.c plan'', price = 50, category = ''cards'',
      images = [], rating = 5, rating_count = 10, in_stock = True, features = [],
      p_id = Oid ''000000000000000000000002'',
      created_at = Some (Datetime 2024 5 18 12 0 0 250000), updated_at = None\<rparr>"

definition silver :: "(oid, datetime) product_doc" where
  "silver =
     \<lparr>title = ''Silver'', description = Some ''Plain'', price = 60, category = ''extras'',
      images = [], rating = 3, rating_count = 7, in_stock = False, features = [],
      p_id = Oid ''000000000000000000000003'',
      created_at = None, updated_at = None\<rparr>"

definition shop :: store where
  "shop =
     \<lparr>user_coll = [], category_coll = [], product_coll = [abc_card, gold, silver],
      cartitem_coll = [], next_oid = 4\<rparr>"

section \<open>Properties of the store operations\<close>

lemma update_one_none: "\<not> (\<exists>x\<in>set xs. p x) \<Longrightarrow> update_one p f xs = (0, xs)"
  by (induction xs) auto

lemma update_one_some:
  "\<exists>x\<in>set xs. p x \<Longrightarrow>
   \<exists>i<length xs. p (xs ! i) \<and> (\<forall>j<i. \<not> p (xs ! j)) \<and> update_one p f xs = (1, xs[i := f (xs ! i)])"
proof (induction xs)
  case Nil
  then show ?case by simp
next
  case (Cons x xs)
  show ?case
  proof (cases "p x")
    case True
    then have "p ((x # xs) ! 0) \<and> (\<forall>j<0. \<not> p ((x # xs) ! j)) \<and>
      update_one p f (x # xs) = (1, (x # xs)[0 := f ((x # xs) ! 0)])" by simp
    then show ?thesis by blast
  next
    case False
    with Cons.prems have "\<exists>x\<in>set xs. p x" by simp
    from Cons.IH [OF this] obtain i where i: "i < length xs" "p (xs ! i)"
      "\<forall>j<i. \<not> p (xs ! j)" "update_one p f xs = (1, xs[i := f (xs ! i)])" by blast
    have "\<forall>j<Suc i. \<not> p ((x # xs) ! j)"
      using False i(3) by (auto simp: nth_Cons split: nat.splits)
    with i False have "Suc i < length (x # xs) \<and> p ((x # xs) ! Suc i) \<and> (\<forall>j<Suc i. \<not> p ((x # xs) ! j)) \<and>
      update_one p f (x # xs) = (1, (x # xs)[Suc i := f ((x # xs) ! Suc i)])" by simp
    then show ?thesis by blast
  qed
qed

lemma find_one_first:
  "i < length xs \<Longrightarrow> p (xs ! i) \<Longrightarrow> \<forall>j<i. \<not> p (xs ! j) \<Longrightarrow> find_one p xs = Some (xs ! i)"
proof (induction xs arbitrary: i)
  case Nil
  then show ?case by simp
next
  case (Cons x xs)
  show ?case
  proof (cases i)
    case 0
    with Cons.prems show ?thesis by (simp add: find_one_def)
  next
    case (Suc k)
    with Cons.prems have "\<not> p x" by auto
    moreover have "find_one p xs = Some (xs ! k)"
      using Cons.prems Suc by (intro Cons.IH) auto
    ultimately show ?thesis using Suc by (simp add: find_one_def)
  qed
qed

lemma find_one_updated:
  assumes "i < length xs" "\<forall>j<i. \<not> p (xs ! j)" "p y"
  shows "find_one p (xs[i := y]) = Some y"
proof -
  have "i < length (xs[i := y])" using assms by simp
  moreover have "p ((xs[i := y]) ! i)" using assms by simp
  moreover have "\<forall>j<i. \<not> p ((xs[i := y]) ! j)" using assms by simp
  ultimately have "find_one p (xs[i := y]) = Some ((xs[i := y]) ! i)" by (rule find_one_first)
  then show ?thesis using assms by simp
qed

subsection \<open>Updating a cart item\<close>

text \<open>
  Claim C7, as amended. For every item identifier that parses as a store identifier (24
  hexadecimal digits), against an available store: when no cart item has that identifier,
  \<open>update_cart\<close> fails with NotFound (404) and the store is as before; otherwise it reports
  success, and the item found under that identifier afterwards is the one found before
  with its quantity set to the requested one and its updated timestamp set to the current
  server time.
\<close>

theorem update_cart_parsable:
  assumes "ObjectId item_id = Inr i"
  shows "if \<exists>d\<in>set (cartitem_coll s). ci_id d = i
         then \<exists>d s'. find_one (\<lambda>d. ci_id d = i) (cartitem_coll s) = Some d \<and>
                update_cart now (Some s) item_id q = (Inr \<lparr>ok = True\<rparr>, Some s') \<and>
                find_one (\<lambda>d. ci_id d = i) (cartitem_coll s') =
                  Some (d\<lparr>qty := q, ci_updated_at := Some now\<rparr>)
         else update_cart now (Some s) item_id q =
                (Inl (HTTPException 404 ''Cart item not found''), Some s)"
proof (cases "\<exists>d\<in>set (cartitem_coll s). ci_id d = i")
  case False
  then have "update_one (\<lambda>d. ci_id d = i) (\<lambda>d. d\<lparr>qty := q, ci_updated_at := Some now\<rparr>)
      (cartitem_coll s) = (0, cartitem_coll s)"
    by (intro update_one_none) simp
  with False assms show ?thesis by (simp add: update_cart_def)
next
  case True
  let ?p = "\<lambda>d. ci_id d = i"
  let ?f = "\<lambda>d. d\<lparr>qty := q, ci_updated_at := Some now\<rparr>"
  let ?c = "cartitem_coll s"
  from update_one_some [of ?c ?p ?f] True obtain k where k: "k < length ?c" "?p (?c ! k)"
    "\<forall>j<k. \<not> ?p (?c ! j)" "update_one ?p ?f ?c = (1, ?c[k := ?f (?c ! k)])" by blast
  have a: "find_one ?p ?c = Some (?c ! k)" using k(1-3) by (rule find_one_first)
  have b: "update_cart now (Some s) item_id q =
      (Inr \<lparr>ok = True\<rparr>, Some (s\<lparr>cartitem_coll := ?c[k := ?f (?c ! k)]\<rparr>))"
    using assms k(4) by (simp add: update_cart_def)
  have "?p (?f (?c ! k))" using k(2) by simp
  with k have c: "find_one ?p (?c[k := ?f (?c ! k)]) = Some (?f (?c ! k))"
    by (intro find_one_updated) auto
  from a b c True show ?thesis by simp
qed

theorem update_cart_parsable_witness:
  "ObjectId ''00000000000000000000000B'' = Inr (Oid ''00000000000000000000000b'') \<and>
   update_cart t0 (Some cart_store) ''00000000000000000000000B'' 7 =
     (Inr \<lparr>ok = True\<rparr>,
      Some (cart_store\<lparr>cartitem_coll :=
        [cartitem_coll cart_store ! 0,
         (cartitem_coll cart_store ! 1)\<lparr>qty := 7, ci_updated_at := Some t0\<rparr>]\<rparr>)) \<and>
   update_cart t0 (Some cart_store) ''00000000000000000000000c'' 7 =
     (Inl (HTTPException 404 ''Cart item not found''), Some cart_store)"
proof -
  have h: "ObjectId ''00000000000000000000000B'' = Inr (Oid ''00000000000000000000000b'')"
    by (simp add: ObjectId_def is_hex_def lower_def lower_char_def)
  have h2: "ObjectId ''00000000000000000000000c'' = Inr (Oid ''00000000000000000000000c'')"
    by (simp add: ObjectId_def is_hex_def lower_def lower_char_def)
  from update_cart_parsable [OF h, of cart_store t0 7]
       update_cart_parsable [OF h2, of cart_store t0 7]
  show ?thesis using h
    by (simp add: cart_store_def update_cart_def h h2)
qed

text \<open>
  Claim C7 as stated fails on an identifier that does not parse: no cart item has the
  identifier \<open>''abc''\<close>, and the handler does not answer NotFound: \<^verbatim>\<open>ObjectId(item_id)\<close>
  raises \<^verbatim>\<open>InvalidId\<close>, which nothing catches (status 500).
\<close>

theorem update_cart_unparsable_counterexample:
  "map (str_oid \<circ> ci_id) (cartitem_coll cart_store) =
     [''00000000000000000000000a'', ''00000000000000000000000b''] \<and>
   update_cart t0 (Some cart_store) ''abc'' 7 = (Inl InvalidId, Some cart_store) \<and>
   status_code InvalidId = 500"
  by (simp add: cart_store_def update_cart_def ObjectId_def)

text \<open>
  Claim C10. A successful \<open>update_cart\<close> changes one cart item, the one matched by the
  identifier: of that item only the quantity and the updated timestamp change (its
  identifier, \<open>client_id\<close> and \<open>product_id\<close> are as before), every other cart item is
  unchanged, and so are the other collections.
\<close>

theorem update_cart_frame:
  assumes "update_cart now db item_id q = (Inr r, db')"
  shows "\<exists>s s' i k. db = Some s \<and> db' = Some s' \<and> ObjectId item_id = Inr i \<and>
           k < length (cartitem_coll s) \<and> ci_id (cartitem_coll s ! k) = i \<and>
           length (cartitem_coll s') = length (cartitem_coll s) \<and>
           cartitem_coll s' ! k = (cartitem_coll s ! k)\<lparr>qty := q, ci_updated_at := Some now\<rparr> \<and>
           (\<forall>j<length (cartitem_coll s).
              ci_id (cartitem_coll s' ! j) = ci_id (cartitem_coll s ! j) \<and>
              client_id (cartitem_coll s' ! j) = client_id (cartitem_coll s ! j) \<and>
              product_id (cartitem_coll s' ! j) = product_id (cartitem_coll s ! j) \<and>
              (j \<noteq> k \<longrightarrow> cartitem_coll s' ! j = cartitem_coll s ! j)) \<and>
           user_coll s' = user_coll s \<and> category_coll s' = category_coll s \<and>
           product_coll s' = product_coll s \<and> next_oid s' = next_oid s"
proof -
  from assms obtain s where s: "db = Some s"
    by (cases db) (auto simp: update_cart_def)
  from assms s obtain i where i: "ObjectId item_id = Inr i"
    by (cases "ObjectId item_id") (auto simp: update_cart_def)
  let ?p = "\<lambda>d. ci_id d = i"
  let ?f = "\<lambda>d. d\<lparr>qty := q, ci_updated_at := Some now\<rparr>"
  let ?c = "cartitem_coll s"
  have ex: "\<exists>d\<in>set ?c. ?p d"
  proof (rule ccontr)
    assume "\<not> ?thesis"
    then have "update_one ?p ?f ?c = (0, ?c)" by (intro update_one_none) simp
    with assms s i show False by (simp add: update_cart_def)
  qed
  from update_one_some [of ?c ?p ?f] ex obtain k where k: "k < length ?c" "?p (?c ! k)"
    "\<forall>j<k. \<not> ?p (?c ! j)" "update_one ?p ?f ?c = (1, ?c[k := ?f (?c ! k)])" by blast
  define s' where "s' = s\<lparr>cartitem_coll := ?c[k := ?f (?c ! k)]\<rparr>"
  have db': "db' = Some s'"
    using assms s i k(4) by (simp add: update_cart_def s'_def)
  have fr: "\<forall>j<length ?c.
              ci_id (cartitem_coll s' ! j) = ci_id (?c ! j) \<and>
              client_id (cartitem_coll s' ! j) = client_id (?c ! j) \<and>
              product_id (cartitem_coll s' ! j) = product_id (?c ! j) \<and>
              (j \<noteq> k \<longrightarrow> cartitem_coll s' ! j = ?c ! j)"
    using k(1) by (auto simp: s'_def nth_list_update)
  have "length (cartitem_coll s') = length ?c"
    "cartitem_coll s' ! k = ?f (?c ! k)"
    "user_coll s' = user_coll s" "category_coll s' = category_coll s"
    "product_coll s' = product_coll s" "next_oid s' = next_oid s"
    using k(1) by (simp_all add: s'_def)
  with s db' i k(1,2) fr show ?thesis by blast
qed

theorem update_cart_frame_witness:
  "update_cart t0 (Some cart_store) ''00000000000000000000000b'' 7 =
     (Inr \<lparr>ok = True\<rparr>,
      Some (cart_store\<lparr>cartitem_coll :=
        [cartitem_coll cart_store ! 0,
         (cartitem_coll cart_store ! 1)\<lparr>qty := 7, ci_updated_at := Some t0\<rparr>]\<rparr>)) \<and>
   (\<exists>s s' i k. Some cart_store = Some s \<and>
      Some (cart_store\<lparr>cartitem_coll :=
        [cartitem_coll cart_store ! 0,
         (cartitem_coll cart_store ! 1)\<lparr>qty := 7, ci_updated_at := Some t0\<rparr>]\<rparr>) = Some s' \<and>
      ObjectId ''00000000000000000000000b'' = Inr i \<and>
      k < length (cartitem_coll s) \<and> ci_id (cartitem_coll s ! k) = i \<and>
      length (cartitem_coll s') = length (cartitem_coll s) \<and>
      cartitem_coll s' ! k = (cartitem_coll s ! k)\<lparr>qty := 7, ci_updated_at := Some t0\<rparr> \<and>
      (\<forall>j<length (cartitem_coll s).
         ci_id (cartitem_coll s' ! j) = ci_id (cartitem_coll s ! j) \<and>
         client_id (cartitem_coll s' ! j) = client_id (cartitem_coll s ! j) \<and>
         product_id (cartitem_coll s' ! j) = product_id (cartitem_coll s ! j) \<and>
         (j \<noteq> k \<longrightarrow> cartitem_coll s' ! j = cartitem_coll s ! j)) \<and>
      user_coll s' = user_coll s \<and> category_coll s' = category_coll s \<and>
      product_coll s' = product_coll s \<and> next_oid s' = next_oid s)"
proof -
  have h: "update_cart t0 (Some cart_store) ''00000000000000000000000b'' 7 =
     (Inr \<lparr>ok = True\<rparr>,
      Some (cart_store\<lparr>cartitem_coll :=
        [cartitem_coll cart_store ! 0,
         (cartitem_coll cart_store ! 1)\<lparr>qty := 7, ci_updated_at := Some t0\<rparr>]\<rparr>))"
    by (simp add: cart_store_def update_cart_def ObjectId_def is_hex_def lower_def lower_char_def)
  from update_cart_frame [OF h] h show ?thesis by simp
qed

lemma find_one_None_iff: "find_one p xs = None \<longleftrightarrow> \<not> (\<exists>x\<in>set xs. p x)"
  by (auto simp: find_one_def find_None_iff)

lemma find_one_SomeD: "find_one p xs = Some x \<Longrightarrow> x \<in> set xs \<and> p x"
  by (auto simp: find_one_def find_Some_iff)

subsection \<open>Fetching one product\<close>

text \<open>
  Claim C5, as amended. For every identifier string that parses as a store identifier (24
  hexadecimal digits), when the store is available: \<open>get_product\<close> fails with NotFound
  (404) when no product has that identifier, and otherwise returns the record of a product
  with that identifier, normalized: the identifier as a string, the timestamps as ISO
  strings, every other field as stored.
\<close>

theorem get_product_parsable:
  assumes "ObjectId pid = Inr i"
  shows "if \<exists>d\<in>set (product_coll s). p_id d = i
         then \<exists>d\<in>set (product_coll s). p_id d = i \<and>
                get_product (Some s) pid =
                  Inr \<lparr>title = title d, description = description d, price = price d,
                       category = category d, images = images d, rating = rating d,
                       rating_count = rating_count d, in_stock = in_stock d,
                       features = features d,
                       p_id = str_oid i,
                       created_at = map_option isoformat (created_at d),
                       updated_at = map_option isoformat (updated_at d)\<rparr>
         else get_product (Some s) pid = Inl (HTTPException 404 ''Product not found'')"
proof (cases "find_one (\<lambda>d. p_id d = i) (product_coll s)")
  case None
  then have "\<not> (\<exists>d\<in>set (product_coll s). p_id d = i)"
    by (simp add: find_one_None_iff)
  with None assms show ?thesis by (simp add: get_product_def)
next
  case (Some d)
  then have d: "d \<in> set (product_coll s)" "p_id d = i"
    using find_one_SomeD [of "\<lambda>d. p_id d = i"] by auto
  have "get_product (Some s) pid = Inr (serialize_product d)"
    using assms Some by (simp add: get_product_def)
  with d show ?thesis by (auto simp: serialize_product_def)
qed

theorem get_product_parsable_witness:
  "ObjectId ''000000000000000000000001'' = Inr (Oid ''000000000000000000000001'') \<and>
   get_product (Some product_store) ''000000000000000000000001'' =
     Inr \<lparr>title = ''Abc Card'', description = None, price = 55, category = ''cards'',
          images = [], rating = 4, rating_count = 3, in_stock = True, features = [],
          p_id = ''000000000000000000000001'',
          created_at = Some ''2024-05-17T09:30:00'', updated_at = None\<rparr> \<and>
   ObjectId ''000000000000000000000002'' = Inr (Oid ''000000000000000000000002'') \<and>
   get_product (Some product_store) ''000000000000000000000002'' =
     Inl (HTTPException 404 ''Product not found'')"
proof -
  have h1: "ObjectId ''000000000000000000000001'' = Inr (Oid ''000000000000000000000001'')"
    by (simp add: ObjectId_def is_hex_def lower_def lower_char_def)
  have h2: "ObjectId ''000000000000000000000002'' = Inr (Oid ''000000000000000000000002'')"
    by (simp add: ObjectId_def is_hex_def lower_def lower_char_def)
  have iso: "isoformat (Datetime 2024 5 17 9 30 0 0) = ''2024-05-17T09:30:00''"
    by code_simp
  from get_product_parsable [OF h1, of product_store]
       get_product_parsable [OF h2, of product_store]
  show ?thesis
    by (simp add: h1 h2 product_store_def abc_card_def iso)
qed

text \<open>
  Claim C5 as stated fails on an identifier that does not parse: \<^verbatim>\<open>ObjectId(product_id)\<close>
  raises \<^verbatim>\<open>InvalidId\<close> before any lookup, nothing catches it, and the answer is status
  500, not NotFound.
\<close>

theorem get_product_unparsable_counterexample:
  "get_product (Some product_store) ''abc'' = Inl InvalidId \<and>
   Inl InvalidId \<noteq> (Inl (HTTPException 404 ''Product not found'') :: error + (string, string) product_doc) \<and>
   status_code InvalidId = 500"
  by (simp add: get_product_def ObjectId_def)

subsection \<open>Reading a cart\<close>

text \<open>
  When every item of the client has a \<open>product_id\<close> that is empty or parses, \<open>get_cart\<close>
  returns one row per item of the client, in store order, each with its resolved product
  or null.
\<close>

lemma attach_products_parsable:
  assumes "\<forall>it\<in>set its. product_id it = [] \<or> (\<exists>i. ObjectId (product_id it) = Inr i)"
  shows "attach_products s its = Inr (map (\<lambda>it. cart_row_of it (resolved s it)) its)"
  using assms
proof (induction its)
  case Nil
  then show ?case by simp
next
  case (Cons it its)
  then have rest: "attach_products s its = Inr (map (\<lambda>it. cart_row_of it (resolved s it)) its)"
    by simp
  from Cons.prems have "product_id it = [] \<or> (\<exists>i. ObjectId (product_id it) = Inr i)"
    by simp
  then show ?case
  proof
    assume e: "product_id it = []"
    then have "resolved s it = None" by (simp add: resolved_def ObjectId_def)
    with e rest show ?thesis by simp
  next
    assume "\<exists>i. ObjectId (product_id it) = Inr i"
    then obtain i where i: "ObjectId (product_id it) = Inr i" ..
    then have "product_id it \<noteq> []" by (auto simp: ObjectId_def split: if_splits)
    with i rest show ?thesis by (simp add: resolved_def)
  qed
qed

lemma get_cart_parsable:
  assumes "\<forall>it\<in>set (cartitem_coll s). client_id it = cid \<longrightarrow>
             product_id it = [] \<or> (\<exists>i. ObjectId (product_id it) = Inr i)"
  shows "get_cart (Some s) cid =
     Inr (map (\<lambda>it. cart_row_of it (resolved s it))
            (filter (\<lambda>it. client_id it = cid) (cartitem_coll s)))"
  using assms by (simp add: get_cart_def attach_products_parsable)

text \<open>
  Claim C1 at a cart item whose \<open>product_id\<close> does not parse. The claim has the row
  returned with a null product and the request succeed. The handler substitutes null when
  the \<open>product_id\<close> is empty and when it parses but no product has it (client \<open>c2\<close>
  below), but for client \<open>c1\<close>, whose item refers to \<open>''not-an-id''\<close>,
  \<^verbatim>\<open>ObjectId(...)\<close> raises \<^verbatim>\<open>InvalidId\<close> inside the loop and the whole request fails.
\<close>

theorem get_cart_unparsable_product_id:
  "map product_id (cartitem_coll cart_store) = [''not-an-id'', ''000000000000000000000001''] \<and>
   get_cart (Some cart_store) ''c1'' = Inl InvalidId \<and>
   get_cart (Some cart_store) ''c2'' =
     Inr [\<lparr>client_id = ''c2'', product_id = ''000000000000000000000001'', qty = 4,
           ci_id = ''00000000000000000000000b'', ci_updated_at = None, product = None\<rparr>]"
  by (simp add: cart_store_def get_cart_def ObjectId_def is_hex_def lower_def lower_char_def
      find_one_def cart_row_of_def)

subsection \<open>Seeding\<close>

lemma seed_products_length: "length seed_products = 24"
  by (simp add: seed_products_def)

text \<open>
  Claim C8. Whenever at least one product exists, \<open>seed_data\<close> changes nothing and reports
  ``Already seeded''; running it twice leaves the store, and so the product collection, as
  running it once does; and after any run on an available store a further run reports
  ``Already seeded''.
\<close>

theorem seed_data_idempotent:
  "(\<forall>s. product_coll s \<noteq> [] \<longrightarrow>
      seed_data (Some s) =
        (Inr \<lparr>ok = True, message = Some ''Already seeded'', inserted = None\<rparr>, Some s)) \<and>
   (\<forall>db. snd (seed_data (snd (seed_data db))) = snd (seed_data db)) \<and>
   (\<forall>s. \<exists>s'. snd (seed_data (Some s)) = Some s' \<and>
      seed_data (Some s') =
        (Inr \<lparr>ok = True, message = Some ''Already seeded'', inserted = None\<rparr>, Some s'))"
proof (intro conjI allI impI)
  fix s :: store
  assume "product_coll s \<noteq> []"
  then show "seed_data (Some s) =
        (Inr \<lparr>ok = True, message = Some ''Already seeded'', inserted = None\<rparr>, Some s)"
    by (simp add: seed_data_def)
next
  fix db
  show "snd (seed_data (snd (seed_data db))) = snd (seed_data db)"
  proof (cases db)
    case None
    then show ?thesis by (simp add: seed_data_def)
  next
    case (Some s)
    have "seed_products \<noteq> []" using seed_products_length by auto
    then show ?thesis using Some
      by (simp add: seed_data_def insert_many_product_def insert_many_category_def)
  qed
next
  fix s
  have ne: "seed_products \<noteq> []" using seed_products_length by auto
  show "\<exists>s'. snd (seed_data (Some s)) = Some s' \<and>
      seed_data (Some s') =
        (Inr \<lparr>ok = True, message = Some ''Already seeded'', inserted = None\<rparr>, Some s')"
    using ne by (simp add: seed_data_def insert_many_product_def insert_many_category_def)
qed

theorem seed_data_idempotent_witness:
  "product_coll product_store \<noteq> [] \<and>
   seed_data (Some product_store) =
     (Inr \<lparr>ok = True, message = Some ''Already seeded'', inserted = None\<rparr>, Some product_store)"
proof -
  have h: "product_coll product_store \<noteq> []" by (simp add: product_store_def)
  from seed_data_idempotent h show ?thesis by blast
qed

subsection \<open>Registration\<close>





subsection \<open>Listing products\<close>

lemma pages_concat:
  "0 < l \<Longrightarrow> length xs \<le> n * l \<Longrightarrow>
   concat (map (\<lambda>i. take l (drop (i * l) xs)) [0..<n]) = xs"
proof (induction n arbitrary: xs)
  case 0
  then show ?case by simp
next
  case (Suc n)
  have len: "length (drop l xs) \<le> n * l" using Suc.prems by simp
  have "[0..<Suc n] = 0 # map Suc [0..<n]"
    by (simp add: upt_conv_Cons map_Suc_upt del: upt_Suc)
  then have "concat (map (\<lambda>i. take l (drop (i * l) xs)) [0..<Suc n]) =
      take l xs @ concat (map (\<lambda>i. take l (drop (Suc i * l) xs)) [0..<n])"
    by (simp add: comp_def del: upt_Suc)
  also have "(\<lambda>i. take l (drop (Suc i * l) xs)) = (\<lambda>i. take l (drop (i * l) (drop l xs)))"
    by (simp add: add.commute)
  also have "concat (map (\<lambda>i. take l (drop (i * l) (drop l xs))) [0..<n]) = drop l xs"
    using Suc.prems(1) len by (rule Suc.IH)
  finally show ?case by simp
qed

lemma upto_as_upt: "[1..int n] = map (\<lambda>i. int i + 1) [0..<n]"
proof (induction n)
  case 0
  then show ?case by simp
next
  case (Suc n)
  have "[1..int (Suc n)] = [1..int n] @ [int n + 1]"
    using upto_rec2 [of 1 "int (Suc n)"] by (simp add: add.commute)
  with Suc show ?case by simp
qed

lemma ceil_div:
  fixes n l :: int
  assumes "0 < l"
  shows "(n + l - 1) div l = \<lceil>real_of_int n / real_of_int l\<rceil>"
proof -
  define z where "z = (n + l - 1) div l"
  define m where "m = (n + l - 1) mod l"
  have eq: "n + l - 1 = z * l + m"
    unfolding z_def m_def using div_mult_mod_eq [of "n + l - 1" l] by simp
  have m: "0 \<le> m" "m < l" using assms by (simp_all add: m_def)
  from eq m have up: "n \<le> z * l" by linarith
  from eq m have lo: "z * l - l < n" by linarith
  have "real_of_int z - 1 < real_of_int n / real_of_int l"
  proof -
    have "real_of_int (z * l - l) < real_of_int n" using lo by linarith
    then have "(real_of_int z - 1) * real_of_int l < real_of_int n"
      by (simp add: algebra_simps)
    then show ?thesis using assms by (simp add: pos_less_divide_eq)
  qed
  moreover have "real_of_int n / real_of_int l \<le> real_of_int z"
  proof -
    have "real_of_int n \<le> real_of_int (z * l)" using up by linarith
    then show ?thesis using assms by (simp add: pos_divide_le_eq)
  qed
  ultimately have "\<lceil>real_of_int n / real_of_int l\<rceil> = z" by (rule ceiling_unique)
  then show ?thesis by (simp add: z_def)
qed

lemma find_products_matching:
  "find_products rx (build_filter q cat lo hi) (product_coll s) = Inr found \<Longrightarrow>
   found = matching_products rx (Some s) q cat lo hi"
  by (auto simp: find_products_def matching_products_def stored_products_def
      split: option.splits regex.splits)

lemma cursor_sort_perm:
  "cursor_sort key dir docs = Inr cursor \<Longrightarrow>
   length cursor = length docs \<and> set cursor = set docs"
  by (auto simp: cursor_sort_def split: if_splits)

lemma apply_sort_perm:
  "apply_sort srt docs = Inr cursor \<Longrightarrow> length cursor = length docs \<and> set cursor = set docs"
  unfolding apply_sort_def
  by (cases srt) (auto split: if_splits dest: cursor_sort_perm)

lemma list_products_SomeD:
  assumes "list_products rx (Some s) q cat lo hi srt pg limit = Inr r"
  shows "\<exists>cursor. apply_sort srt (matching_products rx (Some s) q cat lo hi) = Inr cursor \<and>
           1 \<le> pg \<and> 1 \<le> limit \<and> limit \<le> 60 \<and> r = page_of cursor pg limit \<and>
           (\<forall>p\<ge>1. list_products rx (Some s) q cat lo hi srt p limit = Inr (page_of cursor p limit))"
proof -
  from assms have v: "1 \<le> pg" "1 \<le> limit" "limit \<le> 60" "\<not> negative lo" "\<not> negative hi"
    by (auto simp: list_products_def split: if_splits)
  from assms v obtain found where
    f: "find_products rx (build_filter q cat lo hi) (product_coll s) = Inr found"
    by (cases "find_products rx (build_filter q cat lo hi) (product_coll s)")
       (auto simp: list_products_def)
  from assms v f obtain cursor where c: "apply_sort srt found = Inr cursor"
    by (cases "apply_sort srt found") (auto simp: list_products_def)
  have m: "found = matching_products rx (Some s) q cat lo hi"
    using f by (rule find_products_matching)
  have "r = page_of cursor pg limit"
    using assms v f c by (simp add: list_products_def page_of_def)
  moreover have "\<forall>p\<ge>1. list_products rx (Some s) q cat lo hi srt p limit =
      Inr (page_of cursor p limit)"
    using v f c by (simp add: list_products_def page_of_def)
  ultimately show ?thesis using v c m by blast
qed

lemma list_products_NoneD:
  assumes "list_products rx None q cat lo hi srt pg limit = Inr r"
  shows "1 \<le> pg \<and> 1 \<le> limit \<and> limit \<le> 60 \<and>
         r = \<lparr>r_items = [], r_total = 0, r_page = pg, r_pages = 0\<rparr> \<and>
         (\<forall>p\<ge>1. list_products rx None q cat lo hi srt p limit =
            Inr \<lparr>r_items = [], r_total = 0, r_page = p, r_pages = 0\<rparr>)"
  using assms by (auto simp: list_products_def split: if_splits)

lemma all_pages_of:
  assumes "1 \<le> limit"
  shows "concat (map (\<lambda>p. r_items (page_of cursor p limit))
           [1..(int (length cursor) + limit - 1) div limit]) = map serialize_product cursor"
proof -
  define l where "l = nat limit"
  define P where "P = (int (length cursor) + limit - 1) div limit"
  have lpos: "0 < l" and lim: "limit = int l" using assms by (simp_all add: l_def)
  have Pc: "P = \<lceil>real (length cursor) / real_of_int limit\<rceil>"
    unfolding P_def using ceil_div [of limit "int (length cursor)"] assms by simp
  have P0: "0 \<le> P" unfolding P_def using assms by (simp add: pos_imp_zdiv_nonneg_iff)
  have cover: "length cursor \<le> nat P * l"
  proof -
    have "real (length cursor) / real_of_int limit \<le> real_of_int P"
      unfolding Pc by (rule le_of_int_ceiling)
    then have "real (length cursor) \<le> real_of_int P * real_of_int limit"
      using assms by (simp add: pos_divide_le_eq)
    then have "int (length cursor) \<le> P * limit"
      by (metis of_int_le_iff of_int_mult of_int_of_nat_eq)
    also have "\<dots> = int (nat P * l)" using P0 lim by simp
    finally show ?thesis by linarith
  qed
  have "[1..P] = map (\<lambda>i. int i + 1) [0..<nat P]"
    using upto_as_upt [of "nat P"] P0 by simp
  then have "concat (map (\<lambda>p. r_items (page_of cursor p limit)) [1..P]) =
      concat (map (\<lambda>i. map serialize_product (take l (drop (i * l) cursor))) [0..<nat P])"
    by (simp add: page_of_def comp_def lim nat_mult_distrib)
  also have "\<dots> = map serialize_product
      (concat (map (\<lambda>i. take l (drop (i * l) cursor)) [0..<nat P]))"
    by (simp add: map_concat comp_def)
  also have "\<dots> = map serialize_product cursor"
    using pages_concat [OF lpos cover] by simp
  finally show ?thesis by (simp add: P_def)
qed

lemma page_items_Some:
  assumes "\<forall>p\<ge>1. list_products rx db q cat lo hi srt p limit = Inr (f p)"
  shows "map (page_items rx db q cat lo hi srt limit) [1..P] = map (\<lambda>p. r_items (f p)) [1..P]"
  using assms by (intro map_cong) (auto simp: page_items_def)

lemma all_pages:
  assumes "list_products rx db q cat lo hi srt pg limit = Inr r"
  shows "\<exists>cursor. concat (map (page_items rx db q cat lo hi srt limit) [1..r_pages r]) =
             map serialize_product cursor \<and>
           length cursor = length (matching_products rx db q cat lo hi) \<and>
           set cursor = set (matching_products rx db q cat lo hi) \<and>
           r_total r = int (length cursor)"
proof (cases db)
  case None
  from list_products_NoneD [OF assms [unfolded None]]
  show ?thesis
    by (simp add: None matching_products_def stored_products_def)
next
  case (Some s)
  from list_products_SomeD [OF assms [unfolded Some]] obtain cursor where
    c: "apply_sort srt (matching_products rx (Some s) q cat lo hi) = Inr cursor"
    and v: "1 \<le> limit" and r: "r = page_of cursor pg limit"
    and all: "\<forall>p\<ge>1. list_products rx (Some s) q cat lo hi srt p limit = Inr (page_of cursor p limit)"
    by blast
  have P: "r_pages r = (int (length cursor) + limit - 1) div limit"
    by (simp add: r page_of_def)
  have "map (page_items rx (Some s) q cat lo hi srt limit) [1..r_pages r] =
      map (\<lambda>p. r_items (page_of cursor p limit)) [1..r_pages r]"
    using all by (rule page_items_Some)
  then have "concat (map (page_items rx db q cat lo hi srt limit) [1..r_pages r]) =
      concat (map (\<lambda>p. r_items (page_of cursor p limit)) [1..r_pages r])"
    unfolding Some by (rule arg_cong)
  also have "\<dots> = map serialize_product cursor"
    unfolding P using v by (rule all_pages_of)
  finally have "concat (map (page_items rx db q cat lo hi srt limit) [1..r_pages r]) =
      map serialize_product cursor" .
  moreover have "r_total r = int (length cursor)" by (simp add: r page_of_def)
  ultimately show ?thesis using apply_sort_perm [OF c] by (auto simp: Some)
qed


lemma list_products_returns:
  assumes "1 \<le> pg" "1 \<le> limit" "limit \<le> 60" "\<not> negative lo" "\<not> negative hi"
    and "\<forall>p. q = Some p \<longrightarrow> p \<noteq> [] \<longrightarrow> (\<exists>m. rx p = Compiled m)"
    and "\<forall>k. srt = Some k \<longrightarrow> k \<noteq> [] \<longrightarrow>
           (if startswith_minus k then tl k else k) \<in> set scalar_fields"
  shows "\<exists>r. list_products rx db q cat lo hi srt pg limit = Inr r"
proof (cases db)
  case None
  with assms show ?thesis by (simp add: list_products_def)
next
  case (Some s)
  have "\<exists>found. find_products rx (build_filter q cat lo hi) (product_coll s) = Inr found"
    using assms(6) by (cases q) (auto simp: find_products_def build_filter_def)
  then obtain found where
    f: "find_products rx (build_filter q cat lo hi) (product_coll s) = Inr found" ..
  have "\<exists>cursor. apply_sort srt found = Inr cursor"
    using assms(7) by (cases srt) (auto simp: apply_sort_def cursor_sort_def)
  then obtain cursor where c: "apply_sort srt found = Inr cursor" ..
  from assms(1-5) f c show ?thesis by (simp add: list_products_def Some)
qed




lemma page_cursor:
  assumes "list_products rx db q cat lo hi srt pg limit = Inr r"
  shows "\<exists>cursor. r_items r =
             map serialize_product (take (nat limit) (drop (nat ((pg - 1) * limit)) cursor)) \<and>
           set cursor \<subseteq> set (matching_products rx db q cat lo hi) \<and>
           (db = None \<and> cursor = [] \<or>
            apply_sort srt (matching_products rx db q cat lo hi) = Inr cursor)"
proof (cases db)
  case None
  from list_products_NoneD [OF assms [unfolded None]] have "r_items r = []" by simp
  then show ?thesis using None by (intro exI [of _ "[]"]) simp
next
  case (Some s)
  from list_products_SomeD [OF assms [unfolded Some]] obtain cursor where
    c: "apply_sort srt (matching_products rx (Some s) q cat lo hi) = Inr cursor"
    and r: "r = page_of cursor pg limit" by blast
  from apply_sort_perm [OF c] r c show ?thesis
    by (intro exI [of _ cursor]) (simp add: Some page_of_def)
qed

lemma matching_price:
  assumes "d \<in> set (matching_products rx db q cat lo hi)"
  shows "(\<forall>a. lo = Some a \<longrightarrow> a \<le> price d) \<and> (\<forall>b. hi = Some b \<longrightarrow> price d \<le> b)"
  using assms
  by (auto simp: matching_products_def matches_def build_filter_def price_in_def
      split: option.splits if_splits)

lemma matching_price_only:
  assumes "\<not> truthy q" "\<not> truthy cat"
  shows "matching_products rx db q cat lo hi =
     filter (\<lambda>d. (\<forall>a. lo = Some a \<longrightarrow> a \<le> price d) \<and> (\<forall>b. hi = Some b \<longrightarrow> price d \<le> b))
       (stored_products db)"
  using assms unfolding matching_products_def
  by (intro filter_cong)
     (auto simp: matches_def build_filter_def price_in_def split: option.splits)

lemma price_serialize [simp]: "price (serialize_product d) = price d"
  by (simp add: serialize_product_def)

text \<open>
  Claim C3. With valid parameters and no text or category filter the request gets a
  response, for every pair of optional bounds. In every response each item has a price
  within the bounds that are present (at least \<open>min_price\<close>, at most \<open>max_price\<close>, each
  bound on its own when the other is absent). When neither a text nor a category filter is
  given, the items of all pages together are exactly the stored products whose price lies
  in that inclusive range, and the total is their count.
\<close>

theorem list_products_price_range:
  "(1 \<le> pg \<and> 1 \<le> limit \<and> limit \<le> 60 \<and> \<not> negative lo \<and> \<not> negative hi \<and>
    (\<forall>k. srt = Some k \<longrightarrow> k \<noteq> [] \<longrightarrow>
       (if startswith_minus k then tl k else k) \<in> set scalar_fields) \<longrightarrow>
    (\<exists>r. list_products rx db None None lo hi srt pg limit = Inr r)) \<and>
   (\<forall>r. list_products rx db q cat lo hi srt pg limit = Inr r \<longrightarrow>
      (\<forall>d\<in>set (r_items r).
         (\<forall>a. lo = Some a \<longrightarrow> a \<le> price d) \<and> (\<forall>b. hi = Some b \<longrightarrow> price d \<le> b)) \<and>
      (\<not> truthy q \<and> \<not> truthy cat \<longrightarrow>
         set (concat (map (page_items rx db q cat lo hi srt limit) [1..r_pages r])) =
           serialize_product `
             {d \<in> set (stored_products db).
                (\<forall>a. lo = Some a \<longrightarrow> a \<le> price d) \<and> (\<forall>b. hi = Some b \<longrightarrow> price d \<le> b)} \<and>
         r_total r =
           int (length (filter
             (\<lambda>d. (\<forall>a. lo = Some a \<longrightarrow> a \<le> price d) \<and> (\<forall>b. hi = Some b \<longrightarrow> price d \<le> b))
             (stored_products db)))))"
proof (rule conjI)
  show "1 \<le> pg \<and> 1 \<le> limit \<and> limit \<le> 60 \<and> \<not> negative lo \<and> \<not> negative hi \<and>
    (\<forall>k. srt = Some k \<longrightarrow> k \<noteq> [] \<longrightarrow>
       (if startswith_minus k then tl k else k) \<in> set scalar_fields) \<longrightarrow>
    (\<exists>r. list_products rx db None None lo hi srt pg limit = Inr r)"
    using list_products_returns [of pg limit lo hi None rx srt db None] by blast
next
  let ?R = "\<lambda>d. (\<forall>a. lo = Some a \<longrightarrow> a \<le> price d) \<and> (\<forall>b. hi = Some b \<longrightarrow> price d \<le> b)"
  show "\<forall>r. list_products rx db q cat lo hi srt pg limit = Inr r \<longrightarrow>
      (\<forall>d\<in>set (r_items r). ?R d) \<and>
      (\<not> truthy q \<and> \<not> truthy cat \<longrightarrow>
         set (concat (map (page_items rx db q cat lo hi srt limit) [1..r_pages r])) =
           serialize_product ` {d \<in> set (stored_products db). ?R d} \<and>
         r_total r = int (length (filter ?R (stored_products db))))"
  proof (intro allI impI conjI)
    fix r
    assume r: "list_products rx db q cat lo hi srt pg limit = Inr r"
    from page_cursor [OF r] obtain cursor where
      it: "r_items r =
        map serialize_product (take (nat limit) (drop (nat ((pg - 1) * limit)) cursor))"
      and sub: "set cursor \<subseteq> set (matching_products rx db q cat lo hi)" by blast
    show "\<forall>d\<in>set (r_items r). ?R d"
    proof
      fix d
      assume "d \<in> set (r_items r)"
      then obtain d0 where d0: "d = serialize_product d0"
        "d0 \<in> set (take (nat limit) (drop (nat ((pg - 1) * limit)) cursor))"
        using it by auto
      then have "d0 \<in> set cursor" by (meson in_set_dropD in_set_takeD)
      with sub have "d0 \<in> set (matching_products rx db q cat lo hi)" by blast
      from matching_price [OF this] d0(1) show "?R d" by simp
    qed
    assume only: "\<not> truthy q \<and> \<not> truthy cat"
    then have m: "matching_products rx db q cat lo hi = filter ?R (stored_products db)"
      by (intro matching_price_only) simp_all
    from all_pages [OF r] obtain c where
      cc: "concat (map (page_items rx db q cat lo hi srt limit) [1..r_pages r]) =
             map serialize_product c"
      and len: "length c = length (matching_products rx db q cat lo hi)"
      and st: "set c = set (matching_products rx db q cat lo hi)"
      and tot: "r_total r = int (length c)" by blast
    show "set (concat (map (page_items rx db q cat lo hi srt limit) [1..r_pages r])) =
           serialize_product ` {d \<in> set (stored_products db). ?R d}"
      unfolding cc using st m by auto
    show "r_total r = int (length (filter ?R (stored_products db)))"
      using tot len m by simp
  qed
qed

theorem list_products_price_range_witness:
  "list_products mongo_regex_i (Some shop) None None (Some 50) (Some 55) (Some ''price'') 1 12 =
     Inr \<lparr>r_items = [serialize_product gold, serialize_product abc_card],
          r_total = 2, r_page = 1, r_pages = 1\<rparr> \<and>
   list_all (\<lambda>d. 50 \<le> price d \<and> price d \<le> 55)
     [serialize_product gold, serialize_product abc_card] \<and>
   set (concat (map (page_items mongo_regex_i (Some shop) None None (Some 50) (Some 55)
      (Some ''price'') 12) [1..1])) =
     serialize_product ` {d \<in> set [abc_card, gold, silver]. 50 \<le> price d \<and> price d \<le> 55}"
proof -
  have h: "list_products mongo_regex_i (Some shop) None None (Some 50) (Some 55)
      (Some ''price'') 1 12 =
     Inr \<lparr>r_items = [serialize_product gold, serialize_product abc_card],
          r_total = 2, r_page = 1, r_pages = 1\<rparr>"
    by (simp add: list_products_def negative_def find_products_def build_filter_def
      matches_def price_in_def apply_sort_def startswith_minus_def cursor_sort_def
      scalar_fields_def field_value_def page_of_def shop_def abc_card_def gold_def silver_def)
  have s: "stored_products (Some shop) = [abc_card, gold, silver]"
    by (simp add: stored_products_def shop_def)
  from list_products_price_range [where pg = 1 and limit = 12 and lo = "Some 50"
      and hi = "Some 55" and srt = "Some ''price''" and rx = mongo_regex_i
      and db = "Some shop" and q = None and cat = None] h s
  show ?thesis by simp
qed







lemma bson_le_price [simp]:
  "bson_le (field_value ''price'' a) (field_value ''price'' b) \<longleftrightarrow> price a \<le> price b"
  by (auto simp: bson_le_def field_value_def)



lemma ordinary_not_dot: "ordinary c \<Longrightarrow> c \<noteq> CHR ''.''"
  by (auto simp: ordinary_def regex_meta_def)

lemma match_here_prefix:
  "list_all ordinary p \<Longrightarrow> match_here p s \<longleftrightarrow> prefix (lower p) (lower s)"
proof (induction p s rule: match_here.induct)
  case (1 s)
  then show ?case by (simp add: lower_def)
next
  case (2 p ps)
  then show ?case by (simp add: lower_def)
next
  case (3 p ps c cs)
  then show ?case by (auto simp: lower_def dest: ordinary_not_dot)
qed

lemma regex_search_sublist:
  assumes "list_all ordinary p"
  shows "regex_search p s \<longleftrightarrow> occurs_in p s"
proof (induction s)
  case Nil
  show ?case using match_here_prefix [OF assms, of "[]"]
    by (simp add: occurs_in_def lower_def)
next
  case (Cons c cs)
  have "sublist (lower p) (lower (c # cs)) \<longleftrightarrow>
      prefix (lower p) (lower (c # cs)) \<or> sublist (lower p) (lower cs)"
    by (simp add: lower_def sublist_Cons_right)
  with Cons match_here_prefix [OF assms, of "c # cs"] show ?case
    by (simp add: occurs_in_def)
qed

lemma mongo_regex_i_ordinary:
  "list_all ordinary q \<Longrightarrow> mongo_regex_i q = Compiled (regex_search q)"
  by (auto simp: mongo_regex_i_def list_all_iff)

lemma matching_literal:
  assumes "q \<noteq> []" "list_all ordinary q"
    and "d \<in> set (matching_products mongo_regex_i db (Some q) cat lo hi)"
  shows "occurs_in q (title d) \<or> (\<exists>s. description d = Some s \<and> occurs_in q s)"
  using assms
  by (auto simp: matching_products_def matches_def build_filter_def mongo_regex_i_ordinary
      regex_search_sublist split: option.splits)

lemma matching_literal_only:
  assumes "q \<noteq> []" "list_all ordinary q" "\<not> truthy cat"
  shows "matching_products mongo_regex_i db (Some q) cat None None =
     filter (\<lambda>d. occurs_in q (title d) \<or> (\<exists>s. description d = Some s \<and> occurs_in q s))
       (stored_products db)"
  using assms unfolding matching_products_def
  by (intro filter_cong)
     (auto simp: matches_def build_filter_def mongo_regex_i_ordinary regex_search_sublist
      split: option.splits)

lemma title_serialize [simp]: "title (serialize_product d) = title d"
  by (simp add: serialize_product_def)

lemma description_serialize [simp]: "description (serialize_product d) = description d"
  by (simp add: serialize_product_def)

text \<open>
  Claim C4, as amended. The store reads \<open>q\<close> as a regular expression, not as a literal
  string. For every non-empty query made of ordinary characters only (ASCII, no
  regular-expression metacharacter) the reading coincides with the literal one: a request
  with valid parameters gets a response; every returned product has \<open>q\<close> occurring,
  case-insensitively, as a substring of its title or of its description; and with no other
  filter the items of all pages together are exactly the stored products with that
  property.
\<close>

theorem list_products_literal_query:
  "(q \<noteq> [] \<and> list_all ordinary q \<and> 1 \<le> pg \<and> 1 \<le> limit \<and> limit \<le> 60 \<and>
    \<not> negative lo \<and> \<not> negative hi \<and>
    (\<forall>k. srt = Some k \<longrightarrow> k \<noteq> [] \<longrightarrow>
       (if startswith_minus k then tl k else k) \<in> set scalar_fields) \<longrightarrow>
    (\<exists>r. list_products mongo_regex_i db (Some q) cat lo hi srt pg limit = Inr r)) \<and>
   (\<forall>r. q \<noteq> [] \<and> list_all ordinary q \<and>
        list_products mongo_regex_i db (Some q) cat lo hi srt pg limit = Inr r \<longrightarrow>
      (\<forall>d\<in>set (r_items r).
         occurs_in q (title d) \<or> (\<exists>s. description d = Some s \<and> occurs_in q s)) \<and>
      (\<not> truthy cat \<and> lo = None \<and> hi = None \<longrightarrow>
         set (concat (map (page_items mongo_regex_i db (Some q) cat lo hi srt limit)
            [1..r_pages r])) =
           serialize_product `
             {d \<in> set (stored_products db).
                occurs_in q (title d) \<or> (\<exists>s. description d = Some s \<and> occurs_in q s)}))"
proof (intro conjI allI impI)
  assume a: "q \<noteq> [] \<and> list_all ordinary q \<and> 1 \<le> pg \<and> 1 \<le> limit \<and> limit \<le> 60 \<and>
    \<not> negative lo \<and> \<not> negative hi \<and>
    (\<forall>k. srt = Some k \<longrightarrow> k \<noteq> [] \<longrightarrow>
       (if startswith_minus k then tl k else k) \<in> set scalar_fields)"
  then have "\<forall>p. Some q = Some p \<longrightarrow> p \<noteq> [] \<longrightarrow> (\<exists>m. mongo_regex_i p = Compiled m)"
    by (simp add: mongo_regex_i_ordinary)
  with a show "\<exists>r. list_products mongo_regex_i db (Some q) cat lo hi srt pg limit = Inr r"
    by (intro list_products_returns) simp_all
next
  let ?O = "\<lambda>d. occurs_in q (title d) \<or> (\<exists>s. description d = Some s \<and> occurs_in q s)"
  fix r
  assume a: "q \<noteq> [] \<and> list_all ordinary q \<and>
        list_products mongo_regex_i db (Some q) cat lo hi srt pg limit = Inr r"
  then have q: "q \<noteq> []" "list_all ordinary q"
    and r: "list_products mongo_regex_i db (Some q) cat lo hi srt pg limit = Inr r"
    by simp_all
  from page_cursor [OF r] obtain cursor where
    it: "r_items r =
        map serialize_product (take (nat limit) (drop (nat ((pg - 1) * limit)) cursor))"
    and sub: "set cursor \<subseteq> set (matching_products mongo_regex_i db (Some q) cat lo hi)"
    by blast
  show "\<forall>d\<in>set (r_items r).
      occurs_in q (title d) \<or> (\<exists>s. description d = Some s \<and> occurs_in q s)"
  proof
    fix d
    assume "d \<in> set (r_items r)"
    then obtain d0 where d0: "d = serialize_product d0"
      "d0 \<in> set (take (nat limit) (drop (nat ((pg - 1) * limit)) cursor))"
      using it by auto
    then have "d0 \<in> set cursor" by (meson in_set_dropD in_set_takeD)
    with sub have "d0 \<in> set (matching_products mongo_regex_i db (Some q) cat lo hi)" by blast
    from matching_literal [OF q this] d0(1)
    show "occurs_in q (title d) \<or> (\<exists>s. description d = Some s \<and> occurs_in q s)" by simp
  qed
  assume only: "\<not> truthy cat \<and> lo = None \<and> hi = None"
  then have m: "matching_products mongo_regex_i db (Some q) cat lo hi =
      filter ?O (stored_products db)"
    using matching_literal_only [OF q, of cat db] by simp
  from all_pages [OF r] obtain c where
    cc: "concat (map (page_items mongo_regex_i db (Some q) cat lo hi srt limit) [1..r_pages r]) =
           map serialize_product c"
    and st: "set c = set (matching_products mongo_regex_i db (Some q) cat lo hi)" by blast
  show "set (concat (map (page_items mongo_regex_i db (Some q) cat lo hi srt limit)
            [1..r_pages r])) = serialize_product ` {d \<in> set (stored_products db). ?O d}"
    unfolding cc using st m by auto
qed

lemma list_all_ordinary_card: "list_all ordinary ''card''"
  by (simp add: ordinary_def regex_meta_def)

lemma shop_query_card:
  "list_products mongo_regex_i (Some shop) (Some ''card'') None None None (Some ''price'') 1 12 =
     Inr \<lparr>r_items = [serialize_product abc_card], r_total = 1, r_page = 1, r_pages = 1\<rparr>"
  by (simp add: list_products_def negative_def find_products_def build_filter_def
      mongo_regex_i_def ordinary_def regex_meta_def lower_char_def
      matches_def apply_sort_def startswith_minus_def cursor_sort_def
      scalar_fields_def field_value_def page_of_def shop_def abc_card_def gold_def silver_def)

theorem list_products_literal_query_witness:
  "''card'' \<noteq> [] \<and> list_all ordinary ''card'' \<and>
   list_products mongo_regex_i (Some shop) (Some ''card'') None None None (Some ''price'') 1 12 =
     Inr \<lparr>r_items = [serialize_product abc_card], r_total = 1, r_page = 1, r_pages = 1\<rparr> \<and>
   list_all
     (\<lambda>d. occurs_in ''card'' (title d) \<or> (\<exists>s. description d = Some s \<and> occurs_in ''card'' s))
     [serialize_product abc_card] \<and>
   set (concat (map (page_items mongo_regex_i (Some shop) (Some ''card'') None None None
      (Some ''price'') 12) [1..1])) =
     serialize_product `
       {d \<in> set (stored_products (Some shop)).
          occurs_in ''card'' (title d) \<or> (\<exists>s. description d = Some s \<and> occurs_in ''card'' s)}"
proof -
  note h = shop_query_card
  note o = list_all_ordinary_card
  from list_products_literal_query [where q = "''card''" and pg = 1 and limit = 12
      and lo = None and hi = None and srt = "Some ''price''" and db = "Some shop"
      and cat = None] h o
  show ?thesis by simp
qed

text \<open>
  Claim C4 as stated fails for a query with a special character. The query \<open>a.c\<close> is a
  pattern in which the dot stands for any character, so the product titled
  \<open>Abc Card\<close>, which has no description, is returned although \<open>a.c\<close> does not occur in its
  title.
\<close>

theorem list_products_regex_counterexample:
  "list_products mongo_regex_i (Some shop) (Some ''a.c'') None None None (Some ''price'') 1 12 =
     Inr \<lparr>r_items = [serialize_product gold, serialize_product abc_card],
          r_total = 2, r_page = 1, r_pages = 1\<rparr> \<and>
   title (serialize_product abc_card) = ''Abc Card'' \<and>
   description (serialize_product abc_card) = None \<and>
   \<not> occurs_in ''a.c'' ''Abc Card''"
proof -
  have "list_products mongo_regex_i (Some shop) (Some ''a.c'') None None None
      (Some ''price'') 1 12 =
     Inr \<lparr>r_items = [serialize_product gold, serialize_product abc_card],
          r_total = 2, r_page = 1, r_pages = 1\<rparr>"
    by (simp add: list_products_def negative_def find_products_def build_filter_def
      mongo_regex_i_def ordinary_def regex_meta_def lower_char_def
      matches_def apply_sort_def startswith_minus_def cursor_sort_def
      scalar_fields_def field_value_def page_of_def shop_def abc_card_def gold_def silver_def)
  moreover have "\<not> occurs_in ''a.c'' ''Abc Card''"
    by (simp add: occurs_in_def lower_def lower_char_def sublist_Cons_right)
  ultimately show ?thesis by (simp add: abc_card_def)
qed

end
